theory Spec2Isabelle
  imports Main "HOL-Library.Char_ord" "HOL-Library.List_Lexorder"
begin

section \<open>Schema comparison (mixins.py, \<open>OSGEOManagerMixin.compare_schema\<close>)\<close>

text \<open>
  A field of a full schema is the tuple \<open>(name, type, width)\<close> that
  \<open>get_full_schema()\<close> returns for each attribute and geometry field. The layer classes
  that build these tuples are not part of the sources at hand, so \<open>compare_schema\<close> takes
  the two full schemas themselves, in the order \<open>get_full_schema()\<close> returned them.
\<close>

type_synonym field = "string \<times> string \<times> int"

text \<open>
  \<open>str.lower()\<close> on the byte strings of Python 2, which the package is written for: the
  letters \<open>A\<close> to \<open>Z\<close> move to \<open>a\<close> to \<open>z\<close>, every other byte stays. A \<open>string\<close> here
  is such a byte string; the lowering of cased letters outside ASCII, which a text string
  of Python 3 would get, is outside this model.
\<close>

definition lower_char :: "char \<Rightarrow> char" where
  "lower_char c =
     (if CHR ''A'' \<le> c \<and> c \<le> CHR ''Z'' then char_of (of_char c + (32::nat)) else c)"

definition lower :: "string \<Rightarrow> string" where
  "lower s = map lower_char s"

record schema_report =
  compatible :: bool
  deleted_fields :: "field list"
  new_fields :: "field list"

text \<open>
  \<open>list.sort(key=lambda field: field[0])\<close> is a stable ascending sort on the field name;
  \<open>sort_key\<close> is the stable insertion sort of the list library, on the lexicographic
  order of strings by character code. \<open>field not in schema\<close> is membership by equality
  of the whole tuple.
\<close>

definition compare_schema :: "field list \<Rightarrow> field list \<Rightarrow> bool \<Rightarrow> schema_report" where
  "compare_schema full1 full2 ignore_case =
     (let schema1 = (if ignore_case
                     then map (\<lambda>field. (lower (fst field), fst (snd field), snd (snd field))) full1
                     else full1);
          schema2 = (if ignore_case
                     then map (\<lambda>field. (lower (fst field), fst (snd field), snd (snd field))) full2
                     else full2);
          schema1 = sort_key fst schema1;
          schema2 = sort_key fst schema2;
          new = filter (\<lambda>field. field \<notin> set schema2) schema1;
          deleted = filter (\<lambda>field. field \<notin> set schema1) schema2;
          deleted = sort_key fst deleted;
          new = sort_key fst new
      in \<lparr> compatible = (schema1 = schema2),
           deleted_fields = deleted,
           new_fields = new \<rparr>)"


section \<open>The vector driver as the code uses it\<close>

text \<open>
  The driver library is an external collaborator. Its handles are modelled by what the
  code reads from them: a layer has a name and rows, a data source has the location it
  was opened at and its layers in source-native order.
\<close>

record ogr_layer =
  GetName :: string
  rows :: "string list list"

record datasource =
  ds_location :: string
  ds_layers :: "ogr_layer list"

text \<open>
  The driver's lookup by name goes over the layers twice: first for a layer of exactly
  that name, then, when there is none, for a layer whose name is the same up to the case
  of the ASCII letters. It yields \<open>None\<close> when both passes find nothing.
\<close>

definition GetLayerByName :: "datasource \<Rightarrow> string \<Rightarrow> ogr_layer option" where
  "GetLayerByName source layername =
     (case find (\<lambda>layer. GetName layer = layername) (ds_layers source) of
        Some layer \<Rightarrow> Some layer
      | None \<Rightarrow> find (\<lambda>layer. lower (GetName layer) = lower layername) (ds_layers source))"

text \<open>
  Modelled from the spec: the layer wrapper classes (\<open>GpkgLayer\<close>, \<open>OSGEOLayer\<close>) are
  not among the sources. A wrapper holds the driver's layer and the source handle it was
  built with, and its \<open>name\<close> is the name of the driver's layer.
\<close>

record GpkgLayer =
  gpkg_layer :: ogr_layer
  gpkg_source :: "datasource option"

definition lyr_name :: "GpkgLayer \<Rightarrow> string" where
  "lyr_name lyr = GetName (gpkg_layer lyr)"

subsection \<open>mixins.py: \<open>source_layer_exists\<close>, \<open>get_source_layers\<close>\<close>

text \<open>A layer object of the driver is always true; only \<open>None\<close> is false.\<close>

definition source_layer_exists :: "datasource \<Rightarrow> string \<Rightarrow> bool" where
  "source_layer_exists source layername =
     (case GetLayerByName source layername of
        Some layer \<Rightarrow> True
      | None \<Rightarrow> False)"

text \<open>
  The constant \<open>STYLES_TABLE\<close> of the constants module is not among the sources; it is the
  first argument here.
\<close>

definition get_source_layers :: "string \<Rightarrow> datasource \<Rightarrow> GpkgLayer list" where
  "get_source_layers STYLES_TABLE source =
     map (\<lambda>layer. \<lparr> gpkg_layer = layer, gpkg_source = Some source \<rparr>)
       (filter (\<lambda>layer. GetName layer \<noteq> STYLES_TABLE) (ds_layers source))"

section \<open>The world the stateful operations run in\<close>

text \<open>
  Exceptions are values. \<open>AssertionError\<close>, \<open>AttributeError\<close> and \<open>TypeError\<close> are
  Python's own; \<open>Exception\<close> is a plain \<open>Exception(message)\<close>; \<open>SourceException\<close> and
  \<open>OSGEOLayerException\<close> are the package's classes of the exceptions module;
  \<open>ExternalError\<close> stands for any other exception below \<open>Exception\<close> that a collaborator
  raises. \<open>KeyboardInterrupt\<close> and \<open>SystemExit\<close> are the raises that are no \<open>Exception\<close>:
  a clause \<open>except Exception\<close> lets them pass.
\<close>

datatype error =
    AssertionError
  | AttributeError
  | TypeError
  | Exception string
  | SourceException string
  | OSGEOLayerException string
  | ExternalError string
  | KeyboardInterrupt
  | SystemExit

fun is_Exception :: "error \<Rightarrow> bool" where
  "is_Exception KeyboardInterrupt = False"
| "is_Exception SystemExit = False"
| "is_Exception e = True"

text \<open>
  The calls of \<open>FlushCache()\<close> are kept as a trace: \<open>Flushed l\<close> is one call on the handle
  opened at \<open>l\<close>.
\<close>

datatype event = Flushed string

record catalog_style =
  sld_url :: string
  style_name :: string

text \<open>
  A registered layer of the host application's catalog, reduced to what \<open>backup_portal\<close>
  reads: \<open>alternate\<close>, the attribute of the first \<open>gml\<close> attribute (\<open>None\<close> when
  \<open>first()\<close> finds none) and the default style (\<open>None\<close> when there is none).
\<close>

record catalog_layer =
  alternate :: string
  gml_attribute :: "string option"
  default_style :: "catalog_style option"

text \<open>The entries of \<open>ogc_server_settings.datastore_db\<close> that \<open>get_connection\<close> reads.\<close>

record db_settings =
  NAME :: "string option"
  USER :: "string option"
  PASSWORD :: "string option"
  HOST :: "string option"
  PORT :: "string option"

record world =
  stores :: "string \<Rightarrow> ogr_layer list option"
  is_dir :: "string \<Rightarrow> bool"
  writable :: "string \<Rightarrow> bool"
  can_create :: "string \<Rightarrow> bool"
  clock :: string
  datastore_db :: db_settings
  catalog :: "catalog_layer list"
  events :: "event list"
  logged :: "error list"

text \<open>
  \<open>stores\<close> maps a location (a file path or a connection descriptor) to the layers of
  the data source there, \<open>None\<close> where the driver can open nothing. \<open>is_dir\<close> and
  \<open>writable\<close> are \<open>os.path.isdir\<close> and \<open>os.access(_, os.W_OK)\<close>; \<open>can_create\<close> says
  where the GPKG driver can create a new data source; \<open>clock\<close> is what
  \<open>time.strftime("%Y_%m_%d-%H_%M_%S")\<close> returns; \<open>logged\<close> is what went to \<open>logger.error\<close>.
\<close>

datatype 'a result = Raise error world | Return 'a world

definition bind_result :: "'a result \<Rightarrow> ('a \<Rightarrow> world \<Rightarrow> 'b result) \<Rightarrow> 'b result" where
  "bind_result m f = (case m of Raise e w \<Rightarrow> Raise e w | Return x w \<Rightarrow> f x w)"

text \<open>
  The three readings of a result: the world it ends in, what it returned, what it raised.
\<close>

definition world_of :: "'a result \<Rightarrow> world" where
  "world_of r = (case r of Raise e w \<Rightarrow> w | Return x w \<Rightarrow> w)"

definition returned :: "'a result \<Rightarrow> 'a option" where
  "returned r = (case r of Raise e w \<Rightarrow> None | Return x w \<Rightarrow> Some x)"

definition raised :: "'a result \<Rightarrow> error option" where
  "raised r = (case r of Raise e w \<Rightarrow> Some e | Return x w \<Rightarrow> None)"

definition FlushCache :: "datasource \<Rightarrow> world \<Rightarrow> world" where
  "FlushCache source w = w\<lparr> events := events w @ [Flushed (ds_location source)] \<rparr>"

text \<open>
  \<open>ogr.Open\<close> without driver exceptions enabled: the handle, or \<open>None\<close> where nothing
  can be opened.
\<close>

definition ogr_Open :: "world \<Rightarrow> string \<Rightarrow> int \<Rightarrow> datasource option" where
  "ogr_Open w source_path update_enabled =
     (case stores w source_path of
        None \<Rightarrow> None
      | Some layers \<Rightarrow> Some \<lparr> ds_location = source_path, ds_layers = layers \<rparr>)"

subsection \<open>mixins.py: \<open>open_source\<close>\<close>

text \<open>
  \<open>open_source\<close> is a generator under \<open>contextmanager\<close>, with no handler around its
  \<open>yield\<close>. The scope body is the argument \<open>body\<close>; it receives what \<open>ogr.Open\<close>
  returned, as the target of \<open>with ... as\<close> does.
  \<^item> The body raises: the exception is thrown into the generator at the \<open>yield\<close> and leaves
    it at once, so neither statement after the \<open>yield\<close> runs.
  \<^item> The body returns (also by a \<open>return\<close> inside the \<open>with\<close>): \<open>source.FlushCache()\<close>
    runs; on an absent handle that call raises \<open>AttributeError\<close>. The last statement,
    \<open>source = None\<close>, rebinds the generator's own variable and has no effect on the handle,
    which the caller still holds.
\<close>

definition open_source ::
  "string \<Rightarrow> int \<Rightarrow> (datasource option \<Rightarrow> world \<Rightarrow> 'a result) \<Rightarrow> world \<Rightarrow> 'a result" where
  "open_source source_path update_enabled body w =
     (let source = ogr_Open w source_path update_enabled in
      case body source w of
        Raise e w' \<Rightarrow> Raise e w'
      | Return r w' \<Rightarrow>
          (case source of
             None \<Rightarrow> Raise AttributeError w'
           | Some s \<Rightarrow> Return r (FlushCache s w')))"

section \<open>What the package defines outside the sources at hand\<close>

record copy_options =
  overwrite :: bool
  temporary :: bool
  launder :: bool
  target_name :: "string option"

text \<open>
  The functions below call code of the package that is not among the sources, and one
  thing the driver binding decides. They are parameters of the model, so that every
  theorem holds whatever they do:
  \<^item> \<open>STYLES_TABLE\<close>, \<open>DOWNLOADS_DIR_PATH\<close>: constants module;
  \<open>get_new_dir\<close>: os_utils module; \<open>get_sld_body\<close>: utils module;
  \<^item> \<open>copy_to_source\<close>: method of \<open>OSGEOLayer\<close>, layers module;
  \<^item> \<open>create_table\<close>, \<open>add_style\<close>: methods of \<open>StyleManager\<close>, styles module, with the
    path the manager was built with as first argument;
  \<^item> \<open>ds_truth\<close>: whether an open data source handle counts as true in \<open>if ds:\<close>, which
    the driver binding decides (\<open>None\<close> is false in any case).
\<close>

record env =
  STYLES_TABLE :: string
  DOWNLOADS_DIR_PATH :: string
  get_new_dir :: "string \<Rightarrow> world \<Rightarrow> string result"
  get_sld_body :: "string \<Rightarrow> world \<Rightarrow> string result"
  copy_to_source :: "GpkgLayer \<Rightarrow> datasource option \<Rightarrow> copy_options \<Rightarrow> world \<Rightarrow> ogr_layer result"
  create_table :: "string \<Rightarrow> world \<Rightarrow> unit result"
  add_style :: "string \<Rightarrow> string \<times> string \<times> string \<times> string \<Rightarrow> bool \<Rightarrow> world \<Rightarrow> unit result"
  ds_truth :: "datasource \<Rightarrow> bool"


section \<open>base_manager.py\<close>

subsection \<open>The manager object\<close>

text \<open>
  \<open>__init__\<close> stores the path and calls \<open>get_source\<close>, which opens the path in a scope,
  keeps the handle in \<open>self.source\<close> and returns it after the scope. Where the path cannot
  be opened the exit of the scope raises, so a manager that exists holds a handle.
\<close>

record OSGEOManager =
  mgr_path :: string
  mgr_source :: datasource

definition get_source :: "string \<Rightarrow> world \<Rightarrow> datasource option result" where
  "get_source path w = open_source path 0 (\<lambda>source w. Return source w) w"

definition OSGEOManager_init :: "string \<Rightarrow> world \<Rightarrow> OSGEOManager result" where
  "OSGEOManager_init package_path w =
     bind_result (get_source package_path w)
       (\<lambda>source w. case source of
                     None \<Rightarrow> Raise AttributeError w
                   | Some s \<Rightarrow> Return \<lparr> mgr_path = package_path, mgr_source = s \<rparr> w)"


definition get_layers :: "env \<Rightarrow> OSGEOManager \<Rightarrow> GpkgLayer list" where
  "get_layers env self = get_source_layers (STYLES_TABLE env) (mgr_source self)"

definition get_layernames :: "env \<Rightarrow> OSGEOManager \<Rightarrow> string list" where
  "get_layernames env self = map lyr_name (get_layers env self)"

subsection \<open>\<open>layer_to_postgis\<close>\<close>

text \<open>
  The scope opens the destination \<open>connectionString\<close>; the layer is looked up in the
  manager's own source; \<open>assert layer\<close> fails on \<open>None\<close>.
\<close>

definition layer_to_postgis ::
  "env \<Rightarrow> OSGEOManager \<Rightarrow> string \<Rightarrow> string \<Rightarrow> copy_options \<Rightarrow> world \<Rightarrow> ogr_layer result" where
  "layer_to_postgis env self layername connectionString options w =
     open_source connectionString 0
       (\<lambda>source w.
          case GetLayerByName (mgr_source self) layername of
            None \<Rightarrow> Raise AssertionError w
          | Some layer \<Rightarrow>
              copy_to_source env \<lparr> gpkg_layer = layer, gpkg_source = source \<rparr> source options w)
       w"

subsection \<open>\<open>postgis_as_gpkg\<close>\<close>

definition endswith :: "string \<Rightarrow> string \<Rightarrow> bool" where
  "endswith s suffix =
     (length suffix \<le> length s \<and> drop (length s - length suffix) s = suffix)"

text \<open>
  \<open>CreateDataSource\<close> yields a handle on a new, empty data source, or \<open>None\<close> where the
  driver cannot create one. \<open>CopyLayer\<close> adds a copy of the layer under the new name.
  The handle is the location; what is written through it is in \<open>stores\<close> at once.
\<close>

definition CreateDataSource :: "string \<Rightarrow> world \<Rightarrow> string option \<times> world" where
  "CreateDataSource dest_path w =
     (if can_create w dest_path
      then (Some dest_path, w\<lparr> stores := (stores w)(dest_path := Some []) \<rparr>)
      else (None, w))"

definition CopyLayer :: "string \<Rightarrow> ogr_layer \<Rightarrow> string \<Rightarrow> world \<Rightarrow> world" where
  "CopyLayer ds layer new_name w =
     (case stores w ds of
        None \<Rightarrow> w
      | Some layers \<Rightarrow>
          w\<lparr> stores := (stores w)(ds := Some (layers @ [layer\<lparr> GetName := new_name \<rparr>])) \<rparr>)"

text \<open>The loop \<open>for lyr in layers: ds.CopyLayer(lyr.gpkg_layer, lyr.name)\<close>.\<close>

fun copy_layers :: "string option \<Rightarrow> GpkgLayer list \<Rightarrow> world \<Rightarrow> unit result" where
  "copy_layers ds [] w = Return () w"
| "copy_layers ds (lyr # layers) w =
     (case ds of
        None \<Rightarrow> Raise AttributeError w
      | Some d \<Rightarrow> copy_layers ds layers (CopyLayer d (gpkg_layer lyr) (lyr_name lyr) w))"

text \<open>
  \<open>layernames\<close> defaults to \<open>None\<close>; \<open>not layernames\<close> holds for \<open>None\<close> and for the empty
  list. Iterating an absent source raises \<open>TypeError\<close>.
\<close>

definition postgis_as_gpkg ::
  "env \<Rightarrow> string \<Rightarrow> string \<Rightarrow> string list option \<Rightarrow> world \<Rightarrow> string result" where
  "postgis_as_gpkg env connectionString dest_path layernames w =
     (let dest_path = (if \<not> endswith dest_path ''.gpkg'' then dest_path @ ''.gpkg'' else dest_path)
      in bind_result
           (open_source connectionString 0
              (\<lambda>postgis_source w.
                 case CreateDataSource dest_path w of
                   (ds, w) \<Rightarrow>
                     (case postgis_source of
                        None \<Rightarrow> Raise TypeError w
                      | Some src \<Rightarrow>
                          (let layers =
                                 (if layernames = None \<or> layernames = Some []
                                  then get_source_layers (STYLES_TABLE env) src
                                  else filter (\<lambda>layer. lyr_name layer \<in> set (case layernames of None \<Rightarrow> [] | Some ns \<Rightarrow> ns))
                                         (get_source_layers (STYLES_TABLE env) src))
                           in copy_layers ds layers w)))
              w)
           (\<lambda>_ w. Return dest_path w))"

subsection \<open>\<open>get_connection\<close> and \<open>build_connection_string\<close>\<close>

text \<open>\<open>"{}".format(x)\<close> on a string or on \<open>None\<close>.\<close>

definition fmt :: "string option \<Rightarrow> string" where
  "fmt x = (case x of None \<Rightarrow> ''None'' | Some s \<Rightarrow> s)"

definition build_connection_string ::
  "string option \<Rightarrow> string option \<Rightarrow> string option \<Rightarrow> string option \<Rightarrow> string option
     \<Rightarrow> string option \<Rightarrow> string" where
  "build_connection_string DB_Name DB_Schema DB_user DB_Pass DB_Port DB_server =
     ''PG: host='' @ fmt DB_server @ '' port='' @ fmt DB_Port @ '' dbname='' @ fmt DB_Name
       @ '' active_schema='' @ fmt DB_Schema @ '' user='' @ fmt DB_user
       @ '' password='' @ fmt DB_Pass"

text \<open>
  \<open>get_connection()\<close> with both arguments left at \<open>None\<close>, as \<open>backup_portal\<close> calls it.
  The port is kept as the text that \<open>format\<close> prints.
\<close>

definition get_connection :: "world \<Rightarrow> string" where
  "get_connection w =
     (let db_settings = datastore_db w;
          db_name = NAME db_settings;
          user = USER db_settings;
          password = PASSWORD db_settings;
          host = (case HOST db_settings of None \<Rightarrow> Some ''localhost'' | Some h \<Rightarrow> Some h);
          port = (case PORT db_settings of None \<Rightarrow> Some ''5432'' | Some p \<Rightarrow> Some p)
      in build_connection_string db_name None user password port host)"


subsection \<open>\<open>backup_portal\<close>\<close>

text \<open>
  \<open>typename.split(":").pop()\<close>: \<open>split\<close> on a separator yields at least one piece, and
  \<open>pop()\<close> takes the last.
\<close>

fun split_sep :: "char \<Rightarrow> string \<Rightarrow> string list" where
  "split_sep c [] = [ [] ]"
| "split_sep c (x # xs) =
     (if x = c then [] # split_sep c xs
      else (case split_sep c xs of
              [] \<Rightarrow> [ [x] ]
            | piece # pieces \<Rightarrow> (x # piece) # pieces))"

definition table_name_of :: "string \<Rightarrow> string" where
  "table_name_of typename = last (split_sep CHR '':'' typename)"

text \<open>\<open>os.path.join\<close> of two components, on POSIX paths.\<close>

definition os_path_join :: "string \<Rightarrow> string \<Rightarrow> string" where
  "os_path_join a b =
     (if b \<noteq> [] \<and> hd b = CHR ''/'' then b
      else if a = [] \<or> last a = CHR ''/'' then a @ b
      else a @ ''/'' @ b)"

definition logger_error :: "error \<Rightarrow> world \<Rightarrow> world" where
  "logger_error e w = w\<lparr> logged := logged w @ [e] \<rparr>"

text \<open>
  The first statement: \<open>if not dest_path: dest_path = get_new_dir(...)\<close>. It stands
  before the protected block, so what \<open>get_new_dir\<close> raises reaches the caller.
\<close>

definition resolve_dest_path :: "env \<Rightarrow> string option \<Rightarrow> world \<Rightarrow> string result" where
  "resolve_dest_path env dest_path w =
     (case dest_path of
        None \<Rightarrow> get_new_dir env (DOWNLOADS_DIR_PATH env) w
      | Some d \<Rightarrow> if d = [] then get_new_dir env (DOWNLOADS_DIR_PATH env) w else Return d w)"

text \<open>
  The loop over \<open>Layer.objects.all()\<close>, with \<open>table_names\<close> and \<open>layer_styles\<close> as
  accumulators. \<open>first()\<close> yielding \<open>None\<close>, or a layer without default style, raises
  \<open>AttributeError\<close> at the attribute access.
\<close>

type_synonym style_row = "string \<times> string \<times> string \<times> string"

fun select_layers ::
  "env \<Rightarrow> datasource \<Rightarrow> catalog_layer list \<Rightarrow> string list \<times> style_row list \<Rightarrow> world
     \<Rightarrow> (string list \<times> style_row list) result" where
  "select_layers env ds [] acc w = Return acc w"
| "select_layers env ds (layer # all_layers) (table_names, layer_styles) w =
     (let typename = alternate layer;
          table_name = table_name_of typename
      in if source_layer_exists ds table_name
         then (case gml_attribute layer of
                 None \<Rightarrow> Raise AttributeError w
               | Some gattr \<Rightarrow>
                   (case default_style layer of
                      None \<Rightarrow> Raise AttributeError w
                    | Some layer_style \<Rightarrow>
                        (case get_sld_body env (sld_url layer_style) w of
                           Raise e w' \<Rightarrow> Raise e w'
                         | Return body w' \<Rightarrow>
                             select_layers env ds all_layers
                               (table_names @ [table_name],
                                layer_styles @ [(table_name, gattr, style_name layer_style, body)])
                               w')))
         else select_layers env ds all_layers (table_names, layer_styles) w)"

text \<open>The loop \<open>for style in layer_styles: stm.add_style(*style, default=True)\<close>.\<close>

fun add_styles :: "env \<Rightarrow> string \<Rightarrow> style_row list \<Rightarrow> world \<Rightarrow> unit result" where
  "add_styles env package_dir [] w = Return () w"
| "add_styles env package_dir (style # layer_styles) w =
     (case add_style env package_dir style True w of
        Raise e w' \<Rightarrow> Raise e w'
      | Return _ w' \<Rightarrow> add_styles env package_dir layer_styles w')"

text \<open>
  The protected block of the function, up to \<open>final_path = dest_path\<close>: it returns
  what that statement assigns to \<open>final_path\<close>.
\<close>

definition backup_try :: "env \<Rightarrow> string \<Rightarrow> string \<Rightarrow> string \<Rightarrow> world \<Rightarrow> string result" where
  "backup_try env dest_path package_dir connection_string w =
     (if \<not> is_dir w dest_path \<or> \<not> writable w dest_path
      then Raise (Exception ''maybe destination is not writable or not a directory'') w
      else bind_result
             (open_source connection_string 0
                (\<lambda>ds w.
                   case ds of
                     None \<Rightarrow> Return () w
                   | Some src \<Rightarrow>
                       if ds_truth env src
                       then bind_result (select_layers env src (catalog w) ([], []) w)
                              (\<lambda>selected w.
                                 case selected of
                                   (table_names, layer_styles) \<Rightarrow>
                                     bind_result
                                       (postgis_as_gpkg env connection_string package_dir
                                          (Some table_names) w)
                                       (\<lambda>_ w. bind_result (create_table env package_dir w)
                                                 (\<lambda>_ w. add_styles env package_dir layer_styles w)))
                       else Return () w)
                w)
             (\<lambda>_ w. Return dest_path w))"

text \<open>
  \<open>except Exception as e: logger.error(e)\<close> logs what the protected block raises when it
  is an \<open>Exception\<close>. \<open>finally: return final_path\<close> then ends the call with \<open>None\<close>, and
  it does so for a raise the \<open>except\<close> clause let pass as well, which is dropped without
  being logged.
\<close>

definition backup_portal :: "env \<Rightarrow> string option \<Rightarrow> world \<Rightarrow> string option result" where
  "backup_portal env dest_path w =
     bind_result (resolve_dest_path env dest_path w)
       (\<lambda>dest_path w.
          let file_suff = clock w;
              package_dir = os_path_join dest_path (''backup_'' @ file_suff @ ''.gpkg'');
              connection_string = get_connection w
          in case backup_try env dest_path package_dir connection_string w of
               Raise e w' \<Rightarrow> Return None (if is_Exception e then logger_error e w' else w')
             | Return final_path w' \<Rightarrow> Return (Some final_path) w')"

section \<open>A concrete portal\<close>

text \<open>
  One world and one set of collaborators, for evaluating the functions: a database with
  the layers \<open>roads\<close>, \<open>parcels\<close> and the style table, a package file
  \<open>/data/in.gpkg\<close> with the layer \<open>roads\<close>, a writable directory \<open>/backups\<close>, and a
  catalog that registers \<open>roads\<close>, \<open>parcels\<close> and \<open>lakes\<close>.
\<close>

definition ex_conn :: string where
  "ex_conn = ''PG: host=localhost port=5432 dbname=geonode_data active_schema=None user=geonode password=secret''"

definition ex_roads :: ogr_layer where
  "ex_roads = \<lparr> GetName = ''roads'', rows = [ [''1'', ''LINESTRING(0 0, 1 1)''] ] \<rparr>"

definition ex_parcels :: ogr_layer where
  "ex_parcels = \<lparr> GetName = ''parcels'', rows = [] \<rparr>"

definition ex_styles :: ogr_layer where
  "ex_styles = \<lparr> GetName = ''layer_styles'', rows = [] \<rparr>"

definition ex_entry :: "string \<Rightarrow> catalog_layer" where
  "ex_entry n = \<lparr> alternate = ''geonode:'' @ n,
                  gml_attribute = Some ''the_geom'',
                  default_style = Some \<lparr> sld_url = ''http://portal/styles/'' @ n @ ''.sld'',
                                         style_name = n \<rparr> \<rparr>"

definition ex_world :: world where
  "ex_world =
     \<lparr> stores = (\<lambda>p. if p = ex_conn then Some [ex_roads, ex_parcels, ex_styles]
                      else if p = ''/data/in.gpkg'' then Some [ex_roads]
                      else None),
       is_dir = (\<lambda>p. p = ''/backups''),
       writable = (\<lambda>p. p = ''/backups''),
       can_create = (\<lambda>p. True),
       clock = ''2020_01_02-03_04_05'',
       datastore_db = \<lparr> NAME = Some ''geonode_data'', USER = Some ''geonode'',
                        PASSWORD = Some ''secret'', HOST = None, PORT = None \<rparr>,
       catalog = [ex_entry ''roads'', ex_entry ''parcels'', ex_entry ''lakes''],
       events = [],
       logged = [] \<rparr>"

text \<open>
  Modelled from the spec: one concrete form of the collaborators that are not among the
  sources. The style manager creates the reserved style table in the archive and inserts
  one row per style; a copy adds the layer to the destination; a new directory is
  allocated under the base directory; an open handle is true when it has layers.
\<close>

definition ex_env :: env where
  "ex_env =
     \<lparr> STYLES_TABLE = ''layer_styles'',
       DOWNLOADS_DIR_PATH = ''/downloads'',
       get_new_dir = (\<lambda>base w. Return (base @ ''/new'')
                        (w\<lparr> is_dir := (is_dir w)(base @ ''/new'' := True),
                            writable := (writable w)(base @ ''/new'' := True) \<rparr>)),
       get_sld_body = (\<lambda>url w. Return (''<sld '' @ url @ ''/>'') w),
       copy_to_source = (\<lambda>lyr dst options w.
                           case dst of
                             None \<Rightarrow> Raise AttributeError w
                           | Some d \<Rightarrow> Return (gpkg_layer lyr)
                               (CopyLayer (ds_location d) (gpkg_layer lyr) (lyr_name lyr) w)),
       create_table = (\<lambda>p w. Return ()
                         (CopyLayer p \<lparr> GetName = ''layer_styles'', rows = [] \<rparr> ''layer_styles'' w)),
       add_style = (\<lambda>p style dflt w.
                      case style of
                        (layer_name, gattr, sname, body) \<Rightarrow>
                          Return ()
                            (w\<lparr> stores := (stores w)(p :=
                                  map_option
                                    (map (\<lambda>t. if GetName t = ''layer_styles''
                                               then t\<lparr> rows := rows t @ [ [layer_name, gattr, sname, body] ] \<rparr>
                                               else t))
                                    (stores w p)) \<rparr>)),
       ds_truth = (\<lambda>ds. ds_layers ds \<noteq> []) \<rparr>"

definition ex_archive :: string where
  "ex_archive = ''/backups/backup_2020_01_02-03_04_05.gpkg''"

definition ex_manager :: OSGEOManager where
  "ex_manager = \<lparr> mgr_path = ''/data/in.gpkg'',
                  mgr_source = \<lparr> ds_location = ''/data/in.gpkg'', ds_layers = [ex_roads] \<rparr> \<rparr>"

definition ex_options :: copy_options where
  "ex_options = \<lparr> overwrite = True, temporary = False, launder = False, target_name = None \<rparr>"


text \<open>The same portal with a catalog that registers only \<open>lakes\<close>, a layer the database lacks.\<close>

definition ex_world_lakes :: world where
  "ex_world_lakes = ex_world\<lparr> catalog := [ex_entry ''lakes''] \<rparr>"

text \<open>The same portal with the settings pointing at a host where nothing can be opened.\<close>

definition ex_world_down :: world where
  "ex_world_down = ex_world\<lparr> datastore_db := (datastore_db ex_world)\<lparr> HOST := Some ''down'' \<rparr> \<rparr>"

definition ex_source :: datasource where
  "ex_source = \<lparr> ds_location = ex_conn, ds_layers = [ex_roads, ex_parcels, ex_styles] \<rparr>"

text \<open>The same collaborators, with an interrupt arriving while a style body is fetched.\<close>

definition ex_env_interrupt :: env where
  "ex_env_interrupt = ex_env\<lparr> get_sld_body := (\<lambda>url w. Raise KeyboardInterrupt w) \<rparr>"


text \<open>Two scope bodies: one that raises exactly when it is handed \<open>None\<close>, one that always raises.\<close>

definition ex_probe :: "datasource option \<Rightarrow> world \<Rightarrow> unit result" where
  "ex_probe source w =
     (case source of
        None \<Rightarrow> Raise (ExternalError ''scope entered with None'') w
      | Some s \<Rightarrow> Return () w)"



section \<open>Basic facts\<close>

lemma split_sep_nonempty: "split_sep c s \<noteq> []"
  by (induction s) (auto split: list.splits)

lemma returned_SomeD: "returned r = Some x \<Longrightarrow> r = Return x (world_of r)"
  by (cases r) (simp_all add: returned_def world_of_def)

lemma raised_SomeD: "raised r = Some e \<Longrightarrow> r = Raise e (world_of r)"
  by (cases r) (simp_all add: raised_def world_of_def)



text \<open>A name in another letter case is found by the lookup and is not among the listed names.\<close>

lemma ex_upper_case_lookup:
  "source_layer_exists ex_source ''ROADS'' \<and>
   ''ROADS'' \<notin> set (map lyr_name (get_source_layers ''layer_styles'' ex_source))"
  by code_simp

lemma os_path_join_neq:
  "b \<noteq> [] \<Longrightarrow> hd b \<noteq> CHR ''/'' \<Longrightarrow> os_path_join a b \<noteq> a"
  by (simp add: os_path_join_def)

text \<open>An empty list of names selects what no list of names selects: every layer.\<close>

lemma postgis_as_gpkg_empty_filter:
  "postgis_as_gpkg env connectionString dest_path (Some []) w
     = postgis_as_gpkg env connectionString dest_path None w"
  by (simp add: postgis_as_gpkg_def Let_def cong: prod.case_cong option.case_cong)

text \<open>The manager of the concrete portal is the one its constructor builds.\<close>

lemma ex_manager_init:
  "returned (OSGEOManager_init ''/data/in.gpkg'' ex_world) = Some ex_manager"
  by (simp add: OSGEOManager_init_def get_source_def open_source_def ogr_Open_def bind_result_def
        returned_def ex_world_def ex_conn_def ex_manager_def)

text \<open>The backup of the concrete portal, evaluated once.\<close>

lemmas ex_defs = ex_world_def ex_env_def ex_conn_def ex_roads_def ex_parcels_def ex_styles_def
  ex_entry_def ex_archive_def ex_world_lakes_def ex_world_down_def ex_source_def
  ex_env_interrupt_def

lemmas backup_defs = backup_portal_def resolve_dest_path_def bind_result_def backup_try_def Let_def
  os_path_join_def get_connection_def build_connection_string_def fmt_def
  open_source_def ogr_Open_def source_layer_exists_def GetLayerByName_def table_name_of_def
  postgis_as_gpkg_def endswith_def CreateDataSource_def CopyLayer_def get_source_layers_def
  lyr_name_def FlushCache_def world_of_def returned_def raised_def lower_def lower_char_def
  logger_error_def

lemma ex_backup_returned:
  "returned (backup_portal ex_env (Some ''/backups'') ex_world) = Some (Some ''/backups'')"
  by (simp add: ex_defs backup_defs)

lemma ex_backup_archive:
  "stores (world_of (backup_portal ex_env (Some ''/backups'') ex_world)) ex_archive
     = Some [ex_roads, ex_parcels,
             \<lparr> GetName = ''layer_styles'',
               rows = [ [''roads'', ''the_geom'', ''roads'', ''<sld http://portal/styles/roads.sld/>''],
                       [''parcels'', ''the_geom'', ''parcels'',
                        ''<sld http://portal/styles/parcels.sld/>''] ] \<rparr>]"
  by (simp add: ex_defs backup_defs)

section \<open>Layer catalog\<close>




section \<open>Source scope\<close>

text \<open>
  At a location where nothing can be opened no error is raised by the opening: the scope
  body runs, with \<open>None\<close> as its handle.
\<close>

theorem open_source_absent_handle_counterexample:
  "ogr_Open ex_world ''/data/missing.gpkg'' 0 = None \<and>
   open_source ''/data/missing.gpkg'' 0 ex_probe ex_world
     = Raise (ExternalError ''scope entered with None'') ex_world"
  by (simp add: ogr_Open_def open_source_def ex_probe_def ex_world_def ex_conn_def)

text \<open>
  Claim C3, amended. For every location that cannot be opened, \<open>open_source\<close> raises
  nothing at the opening and hands the absent handle \<open>None\<close> to the scope body. What the
  body raises reaches the caller; when the body ends normally, the exit of the scope raises
  \<open>AttributeError\<close>, from the call of \<open>FlushCache\<close> on \<open>None\<close>.
\<close>

theorem open_source_unopenable:
  "stores w source_path = None \<Longrightarrow>
   open_source source_path update_enabled body w =
     (case body None w of
        Raise e w' \<Rightarrow> Raise e w'
      | Return r w' \<Rightarrow> Raise AttributeError w')"
  by (simp add: open_source_def ogr_Open_def split: result.splits)

theorem open_source_unopenable_witness:
  "stores ex_world ''/data/missing.gpkg'' = None \<and>
   get_source ''/data/missing.gpkg'' ex_world = Raise AttributeError ex_world"
proof -
  have h: "stores ex_world ''/data/missing.gpkg'' = None"
    by (simp add: ex_world_def ex_conn_def)
  show ?thesis
    using h open_source_unopenable [OF h, of 0 "\<lambda>source w. Return source w"]
    by (simp add: get_source_def)
qed




section \<open>Layer copy\<close>

text \<open>
  For a layer name the manager's source lacks, the failure is Python's \<open>AssertionError\<close>,
  from \<open>assert layer\<close>, and none of the package's own exceptions.
\<close>

theorem layer_to_postgis_assertion_counterexample:
  "GetLayerByName (mgr_source ex_manager) ''lakes'' = None \<and>
   layer_to_postgis ex_env ex_manager ''lakes'' ex_conn ex_options ex_world
     = Raise AssertionError ex_world"
  by (simp add: layer_to_postgis_def open_source_def ogr_Open_def GetLayerByName_def
        ex_manager_def ex_world_def ex_source_def ex_roads_def lower_def lower_char_def)

text \<open>
  Claim C4, amended. For every layer name that does not exist in the manager's source,
  \<open>layer_to_postgis\<close> fails with \<open>AssertionError\<close> (the failed \<open>assert layer\<close>) and
  leaves the destination unmodified: every store is as before, and no flush of the
  destination is added to the trace.
\<close>

theorem layer_to_postgis_missing_layer:
  assumes "GetLayerByName (mgr_source self) layername = None"
  shows "raised (layer_to_postgis env self layername connectionString options w) = Some AssertionError
       \<and> stores (world_of (layer_to_postgis env self layername connectionString options w)) = stores w
       \<and> filter (\<lambda>ev. ev = Flushed connectionString)
            (events (world_of (layer_to_postgis env self layername connectionString options w)))
          = filter (\<lambda>ev. ev = Flushed connectionString) (events w)"
  using assms
  by (simp add: layer_to_postgis_def open_source_def ogr_Open_def raised_def world_of_def
        split: option.splits)

theorem layer_to_postgis_missing_layer_witness:
  "GetLayerByName (mgr_source ex_manager) ''lakes'' = None \<and>
   raised (layer_to_postgis ex_env ex_manager ''lakes'' ex_conn ex_options ex_world)
     = Some AssertionError
   \<and> stores (world_of (layer_to_postgis ex_env ex_manager ''lakes'' ex_conn ex_options ex_world)) ex_conn
       = Some [ex_roads, ex_parcels, ex_styles]"
proof -
  have h: "GetLayerByName (mgr_source ex_manager) ''lakes'' = None"
    by (simp add: GetLayerByName_def ex_manager_def ex_roads_def lower_def lower_char_def)
  have s: "stores ex_world ex_conn = Some [ex_roads, ex_parcels, ex_styles]"
    by (simp add: ex_world_def)
  show ?thesis
    using h s layer_to_postgis_missing_layer [OF h, of ex_env ex_conn ex_options ex_world]
    by simp
qed

section \<open>Backup\<close>

text \<open>
  A backup that succeeds returns the destination directory, while the archive it wrote
  is the file \<open>backup_<timestamp>.gpkg\<close> inside that directory.
\<close>

theorem backup_portal_returns_directory_counterexample:
  "returned (backup_portal ex_env (Some ''/backups'') ex_world) = Some (Some ''/backups'')
   \<and> stores (world_of (backup_portal ex_env (Some ''/backups'') ex_world)) ex_archive \<noteq> None
   \<and> ''/backups'' \<noteq> ex_archive"
  by (simp add: ex_backup_returned ex_backup_archive) (simp add: ex_archive_def)

text \<open>
  Claim C2, amended. For every backup run that completes successfully, \<open>backup_portal\<close>
  returns the destination directory, that is the directory it was given, or the one
  \<open>get_new_dir\<close> allocated when none was given; it does not return the archive path
  \<open>backup_<timestamp>.gpkg\<close> joined to that directory.
\<close>

theorem backup_portal_returns_destination:
  assumes "returned (backup_portal env dest_path w) = Some (Some p)"
  shows "returned (resolve_dest_path env dest_path w) = Some p
       \<and> returned (backup_portal env dest_path w)
           \<noteq> Some (Some (os_path_join p
                 (''backup_'' @ clock (world_of (resolve_dest_path env dest_path w)) @ ''.gpkg'')))"
proof -
  obtain d w1 where r: "resolve_dest_path env dest_path w = Return d w1"
    using assms by (cases "resolve_dest_path env dest_path w")
      (simp_all add: backup_portal_def bind_result_def returned_def)
  let ?t = "backup_try env d (os_path_join d (''backup_'' @ clock w1 @ ''.gpkg''))
              (get_connection w1) w1"
  have "\<exists>w2. ?t = Return p w2"
    using assms r
    by (cases ?t) (simp_all add: backup_portal_def bind_result_def returned_def Let_def)
  then have pd: "p = d"
    by (auto simp add: backup_try_def bind_result_def split: if_splits result.splits)
  have ne: "os_path_join d (''backup_'' @ clock w1 @ ''.gpkg'') \<noteq> d"
    by (rule os_path_join_neq) simp_all
  have res: "returned (resolve_dest_path env dest_path w) = Some p"
    using r pd by (simp add: returned_def)
  have "returned (backup_portal env dest_path w)
          \<noteq> Some (Some (os_path_join d (''backup_'' @ clock w1 @ ''.gpkg'')))"
    using assms pd ne by simp
  then show ?thesis
    using res r pd by (simp add: world_of_def)
qed

theorem backup_portal_returns_destination_witness:
  "returned (backup_portal ex_env (Some ''/backups'') ex_world) = Some (Some ''/backups'')
   \<and> returned (resolve_dest_path ex_env (Some ''/backups'') ex_world) = Some ''/backups''
   \<and> returned (backup_portal ex_env (Some ''/backups'') ex_world) \<noteq> Some (Some ex_archive)"
proof -
  have c: "os_path_join ''/backups''
             (''backup_'' @ clock (world_of (resolve_dest_path ex_env (Some ''/backups'') ex_world))
                @ ''.gpkg'') = ex_archive"
    by (simp add: resolve_dest_path_def world_of_def os_path_join_def ex_world_def ex_archive_def)
  show ?thesis
    using ex_backup_returned backup_portal_returns_destination [OF ex_backup_returned] c
    by simp
qed

text \<open>
  Claim C5, at a failing input. The catalog registers only \<open>lakes\<close>, which the database
  lacks, so no layer is selected; the backup then copies every layer of the database
  into the archive (\<open>roads\<close> and \<open>parcels\<close>), next to the empty style table.
\<close>

theorem backup_portal_empty_selection_copies_all:
  "returned (select_layers ex_env ex_source (catalog ex_world_lakes) ([], []) ex_world_lakes)
     = Some ([], [])
   \<and> stores (world_of (backup_portal ex_env (Some ''/backups'') ex_world_lakes)) ex_archive
       = Some [ex_roads, ex_parcels, \<lparr> GetName = ''layer_styles'', rows = [] \<rparr>]"
  by (simp add: ex_defs backup_defs)

text \<open>
  An interrupt that arrives while a style body is fetched is no \<open>Exception\<close>: the
  backup returns \<open>None\<close> and nothing is logged.
\<close>

theorem backup_portal_interrupt_unlogged_counterexample:
  "raised (backup_try ex_env_interrupt ''/backups'' ex_archive ex_conn ex_world)
     = Some KeyboardInterrupt
   \<and> returned (backup_portal ex_env_interrupt (Some ''/backups'') ex_world) = Some None
   \<and> logged (world_of (backup_portal ex_env_interrupt (Some ''/backups'') ex_world)) = []"
  by (simp add: ex_defs backup_defs)

text \<open>
  Claim C6, amended. For every run of \<open>backup_portal\<close> that got past the choice of the
  destination, no exception reaches the caller: whatever the protected block raises
  (opening the source, selecting the layers, copying them, filling the style table), the
  call returns \<open>None\<close>. What was raised is logged when it is an \<open>Exception\<close>; a raise
  that is none (\<open>KeyboardInterrupt\<close>, \<open>SystemExit\<close>) is dropped without being logged.
\<close>

theorem backup_portal_swallows_exceptions:
  assumes "resolve_dest_path env dest_path w = Return d w1"
  shows "raised (backup_portal env dest_path w) = None
       \<and> returned (backup_portal env dest_path w) \<noteq> None
       \<and> (backup_try env d (os_path_join d (''backup_'' @ clock w1 @ ''.gpkg'')) (get_connection w1) w1
            = Raise e w2
          \<longrightarrow> backup_portal env dest_path w
                = Return None (if is_Exception e then logger_error e w2 else w2))"
  using assms
  by (auto simp add: backup_portal_def bind_result_def Let_def raised_def returned_def
        split: result.splits)

theorem backup_portal_swallows_exceptions_witness:
  "resolve_dest_path ex_env (Some ''/backups'') ex_world_down = Return ''/backups'' ex_world_down
   \<and> backup_try ex_env ''/backups'' ex_archive (get_connection ex_world_down) ex_world_down
       = Raise AttributeError ex_world_down
   \<and> backup_portal ex_env (Some ''/backups'') ex_world_down
       = Return None (logger_error AttributeError ex_world_down)"
proof -
  have h: "resolve_dest_path ex_env (Some ''/backups'') ex_world_down
             = Return ''/backups'' ex_world_down"
    by (simp add: resolve_dest_path_def)
  have c: "os_path_join ''/backups'' (''backup_'' @ clock ex_world_down @ ''.gpkg'') = ex_archive"
    by (simp add: os_path_join_def ex_world_down_def ex_world_def ex_archive_def)
  have t: "backup_try ex_env ''/backups'' ex_archive (get_connection ex_world_down) ex_world_down
             = Raise AttributeError ex_world_down"
    by (simp add: backup_try_def open_source_def ogr_Open_def bind_result_def get_connection_def
          build_connection_string_def fmt_def ex_world_down_def ex_world_def ex_conn_def)
  show ?thesis
    using h t c backup_portal_swallows_exceptions [OF h, of AttributeError ex_world_down]
    by simp
qed

text \<open>
  Claim C7. For every backup run whose given destination is not a writable directory,
  \<open>backup_portal\<close> returns \<open>None\<close> and creates nothing: the world after the run is the
  world before it with the one error logged; stores and trace are unchanged. (An empty
  string counts as no destination given.)
\<close>

theorem backup_portal_unwritable_destination:
  assumes "d \<noteq> []" and "\<not> (is_dir w d \<and> writable w d)"
  shows "backup_portal env (Some d) w
           = Return None
               (logger_error (Exception ''maybe destination is not writable or not a directory'') w)
       \<and> stores (world_of (backup_portal env (Some d) w)) = stores w
       \<and> events (world_of (backup_portal env (Some d) w)) = events w"
  using assms
  by (auto simp add: backup_portal_def resolve_dest_path_def bind_result_def backup_try_def Let_def
        logger_error_def world_of_def)

theorem backup_portal_unwritable_destination_witness:
  "''/nowhere'' \<noteq> [] \<and> \<not> (is_dir ex_world ''/nowhere'' \<and> writable ex_world ''/nowhere'') \<and>
   backup_portal ex_env (Some ''/nowhere'') ex_world
     = Return None
         (logger_error (Exception ''maybe destination is not writable or not a directory'') ex_world)
   \<and> stores (world_of (backup_portal ex_env (Some ''/nowhere'') ex_world)) = stores ex_world"
proof -
  have h1: "''/nowhere'' \<noteq> []" by simp
  have h2: "\<not> (is_dir ex_world ''/nowhere'' \<and> writable ex_world ''/nowhere'')"
    by (simp add: ex_world_def)
  show ?thesis
    using h1 h2 backup_portal_unwritable_destination [OF h1 h2, of ex_env]
    by (simp add: world_of_def logger_error_def)
qed

section \<open>Schema comparison\<close>

text \<open>
  Claim C9. On the full schemas \<open>[("id","int",10), ("name","string",50)]\<close> and
  \<open>[("ID","int",10), ("name","string",50)]\<close>: without \<open>ignore_case\<close> the report is
  incompatible, with \<open>("id","int",10)\<close> as the only new field and \<open>("ID","int",10)\<close> as
  the only deleted field; with \<open>ignore_case\<close> the report is compatible and both lists
  are empty.
\<close>

theorem compare_schema_scenario_b:
  "compare_schema [(''id'', ''int'', 10), (''name'', ''string'', 50)]
                  [(''ID'', ''int'', 10), (''name'', ''string'', 50)] False
     = \<lparr> compatible = False,
         deleted_fields = [(''ID'', ''int'', 10)],
         new_fields = [(''id'', ''int'', 10)] \<rparr>
   \<and> compare_schema [(''id'', ''int'', 10), (''name'', ''string'', 50)]
                    [(''ID'', ''int'', 10), (''name'', ''string'', 50)] True
     = \<lparr> compatible = True, deleted_fields = [], new_fields = [] \<rparr>"
  by code_simp

text \<open>
  Claim C10. For all full schemas \<open>S1\<close> and \<open>S2\<close> and either setting of \<open>ignore_case\<close>,
  comparing \<open>S1\<close> with \<open>S2\<close> and comparing \<open>S2\<close> with \<open>S1\<close> agree on \<open>compatible\<close>, and
  the new fields of the first comparison are the deleted fields of the second.
\<close>

theorem compare_schema_symmetry_duality:
  "compatible (compare_schema S1 S2 ignore_case) = compatible (compare_schema S2 S1 ignore_case)
   \<and> new_fields (compare_schema S1 S2 ignore_case)
       = deleted_fields (compare_schema S2 S1 ignore_case)"
  by (auto simp add: compare_schema_def Let_def)

end
